theory Spec2Isabelle
  imports Complex_Main
begin

section \<open>Notes and judgments (src/types.ts, src/game/scoring.ts)\<close>

text \<open>
  JavaScript numbers that hold times are modelled as \<open>real\<close> (the exact value of the
  double), counters that only ever start at 0 and are incremented as \<open>nat\<close>, and the
  score as \<open>int\<close>. Sums and differences of times are taken exactly, except in
  \<open>findNearestNote\<close> below, where the rounding of the doubles decides which notes a
  press can reach. The optional field \<open>hit?\<close> of a note is a \<open>bool\<close>: the source only
  tests it for truthiness, so \<open>undefined\<close> and \<open>false\<close> coincide.
\<close>

record Note =
  lane :: nat
  hitTime :: real
  hit :: bool

datatype Rating = PERFECT | GOOD | MISS

record HitResult =
  rating :: Rating
  scoreDelta :: int
  timeDiff :: real

record GameStats =
  perfectCount :: nat
  goodCount :: nat
  missCount :: nat
  maxCombo :: nat
  currentCombo :: nat

record GameState =
  stats :: GameStats
  score :: int

text \<open>\<open>RhythmScoring.evaluateHit\<close>, scoring.ts lines 18-40.\<close>

definition evaluateHit :: "Note \<Rightarrow> real \<Rightarrow> HitResult" where
  "evaluateHit note songTime =
     (let td = \<bar>hitTime note - songTime\<bar> in
      if td \<le> 0.060 then \<lparr>rating = PERFECT, scoreDelta = 100, timeDiff = td\<rparr>
      else if td \<le> 0.120 then \<lparr>rating = GOOD, scoreDelta = 50, timeDiff = td\<rparr>
      else \<lparr>rating = MISS, scoreDelta = 0, timeDiff = td\<rparr>)"

text \<open>\<open>GameState.processHit\<close>, scoring.ts lines 54-69. The state is passed explicitly.\<close>

definition processHit :: "HitResult \<Rightarrow> GameState \<Rightarrow> GameState" where
  "processHit result g =
     (let st = stats g in
      if rating result = MISS then
        g\<lparr>stats := st\<lparr>missCount := missCount st + 1, currentCombo := 0\<rparr>\<rparr>
      else
        (let st1 = (if rating result = PERFECT
                    then st\<lparr>perfectCount := perfectCount st + 1\<rparr>
                    else st\<lparr>goodCount := goodCount st + 1\<rparr>);
             st2 = st1\<lparr>currentCombo := currentCombo st1 + 1\<rparr>;
             st3 = st2\<lparr>maxCombo := max (maxCombo st2) (currentCombo st2)\<rparr>
         in g\<lparr>stats := st3, score := score g + scoreDelta result\<rparr>))"

definition getScore :: "GameState \<Rightarrow> int" where
  "getScore g = score g"

definition getCombo :: "GameState \<Rightarrow> nat" where
  "getCombo g = currentCombo (stats g)"

definition getStats :: "GameState \<Rightarrow> GameStats" where
  "getStats g = stats g"

text \<open>\<open>GameState.reset\<close>, scoring.ts lines 87-96; it is also the state of a fresh object.\<close>

definition GameState_reset :: "GameState" where
  "GameState_reset =
     \<lparr>stats = \<lparr>perfectCount = 0, goodCount = 0, missCount = 0, maxCombo = 0, currentCombo = 0\<rparr>,
      score = 0\<rparr>"

text \<open>\<open>GameState.getAccuracy\<close> and \<open>getGrade\<close>, scoring.ts lines 98-115.\<close>

definition getAccuracy :: "GameState \<Rightarrow> real" where
  "getAccuracy g =
     (let st = stats g; total = perfectCount st + goodCount st + missCount st in
      if total = 0 then 0
      else (let weightedScore = perfectCount st * 100 + goodCount st * 50;
                maxScore = total * 100
            in (real weightedScore / real maxScore) * 100))"

definition getGrade :: "GameState \<Rightarrow> string" where
  "getGrade g =
     (let accuracy = getAccuracy g in
      if accuracy \<ge> 95 then ''S''
      else if accuracy \<ge> 90 then ''A''
      else if accuracy \<ge> 80 then ''B''
      else if accuracy \<ge> 70 then ''C''
      else if accuracy \<ge> 60 then ''D''
      else ''F'')"

text \<open>Folding a script of judgments into the accumulator, oldest first.\<close>

definition processAll :: "HitResult list \<Rightarrow> GameState \<Rightarrow> GameState" where
  "processAll rs g = fold processHit rs g"


section \<open>The audio clock (WebAudioEngine, src/audio/audioEngine.ts)\<close>

text \<open>
  The engine's timing fields are a record. \<open>audioContext\<close> is \<open>None\<close> for \<open>null\<close>. The
  device clock \<open>audioContext.currentTime\<close> advances outside the program, so every method
  that reads it takes the reading as its argument \<open>now\<close>. The audio nodes and the music
  buffer carry no timing state and are left out.
\<close>

record WebAudioEngine =
  audioContext :: "unit option"
  songStartTime :: real
  calibrationOffset :: real
  isPlaying :: bool
  isPaused :: bool
  pauseStartTime :: real
  totalPausedTime :: real

datatype error = AudioContextError | TypeError

text \<open>The field initialisers of the class, lines 8-19.\<close>

definition WebAudioEngine_new :: "WebAudioEngine" where
  "WebAudioEngine_new =
     \<lparr>audioContext = None, songStartTime = 0, calibrationOffset = 0, isPlaying = False,
      isPaused = False, pauseStartTime = 0, totalPausedTime = 0\<rparr>"

text \<open>\<open>stop\<close>, lines 101-132: errors of the device are swallowed, all timing state is reset;
  the calibration offset is kept.\<close>

definition stop :: "WebAudioEngine \<Rightarrow> WebAudioEngine" where
  "stop e = e\<lparr>audioContext := None, isPlaying := False, isPaused := False,
              totalPausedTime := 0, songStartTime := 0, pauseStartTime := 0\<rparr>"

text \<open>
  \<open>start\<close>, lines 37-79. The argument is \<open>None\<close> when the platform refuses to create the
  \<open>AudioContext\<close> (the constructor throws and the promise rejects, after \<open>stop\<close> has run),
  and \<open>Some t\<close> when it is created and its clock reads \<open>t\<close> at line 72. The body has no
  \<open>await\<close>, so it runs as one step.
\<close>

definition start :: "real option \<Rightarrow> WebAudioEngine \<Rightarrow> error + WebAudioEngine" where
  "start ctx e =
     (let e1 = stop e in
      case ctx of
        None \<Rightarrow> Inl AudioContextError
      | Some t \<Rightarrow> Inr (e1\<lparr>audioContext := Some (), songStartTime := t, totalPausedTime := 0,
                          isPaused := False, isPlaying := True\<rparr>))"

text \<open>The \<open>onended\<close> handler installed by \<open>start\<close>, lines 65-69.\<close>

definition onended :: "WebAudioEngine \<Rightarrow> WebAudioEngine" where
  "onended e = (if isPlaying e \<and> \<not> isPaused e then e\<lparr>isPlaying := False\<rparr> else e)"

text \<open>\<open>getSongTime\<close>, lines 86-95.\<close>

definition getSongTime :: "WebAudioEngine \<Rightarrow> real \<Rightarrow> real" where
  "getSongTime e now =
     (if audioContext e = None \<or> \<not> isPlaying e then 0
      else (let elapsed = now - songStartTime e;
                calibrated = elapsed - totalPausedTime e - calibrationOffset e
            in max 0 calibrated))"

text \<open>\<open>setOffset\<close>, lines 139-141.\<close>

definition setOffset :: "real \<Rightarrow> WebAudioEngine \<Rightarrow> WebAudioEngine" where
  "setOffset offset e = e\<lparr>calibrationOffset := offset\<rparr>"

text \<open>\<open>pause\<close>, lines 147-155.\<close>

definition pause :: "real \<Rightarrow> WebAudioEngine \<Rightarrow> WebAudioEngine" where
  "pause now e =
     (if audioContext e = None \<or> \<not> isPlaying e \<or> isPaused e then e
      else e\<lparr>pauseStartTime := now, isPaused := True\<rparr>)"

text \<open>
  \<open>resume\<close>, lines 161-170. \<open>now\<close> is the device clock read at line 167, after the
  awaited \<open>audioContext.resume()\<close> has settled; no other call on the engine is taken to
  run during that await.
\<close>

definition resume :: "real \<Rightarrow> WebAudioEngine \<Rightarrow> WebAudioEngine" where
  "resume now e =
     (if audioContext e = None \<or> \<not> isPaused e then e
      else (let pauseDuration = now - pauseStartTime e in
            e\<lparr>totalPausedTime := totalPausedTime e + pauseDuration, isPaused := False\<rparr>))"

text \<open>The states an engine can be in: a fresh object, changed by any sequence of calls.\<close>

inductive reachable :: "WebAudioEngine \<Rightarrow> bool" where
  reach_new: "reachable WebAudioEngine_new"
| reach_stop: "reachable e \<Longrightarrow> reachable (stop e)"
| reach_start: "reachable e \<Longrightarrow> start ctx e = Inr e' \<Longrightarrow> reachable e'"
| reach_onended: "reachable e \<Longrightarrow> reachable (onended e)"
| reach_setOffset: "reachable e \<Longrightarrow> reachable (setOffset x e)"
| reach_pause: "reachable e \<Longrightarrow> reachable (pause now e)"
| reach_resume: "reachable e \<Longrightarrow> reachable (resume now e)"


section \<open>Keyboard input (KeyboardInput, src/game/input.ts)\<close>

text \<open>
  \<open>String.prototype.toLowerCase\<close> on the ASCII letters; other characters are unchanged.
  The handler's only state is the set of held keys.
\<close>

definition toLowerCase :: "string \<Rightarrow> string" where
  "toLowerCase key =
     map (\<lambda>c. case map_of (zip ''ABCDEFGHIJKLMNOPQRSTUVWXYZ'' ''abcdefghijklmnopqrstuvwxyz'') c of
                 None \<Rightarrow> c | Some d \<Rightarrow> d) key"

definition onKeyDown :: "string \<Rightarrow> string set \<Rightarrow> string set" where
  "onKeyDown key held = insert (toLowerCase key) held"

definition onKeyUp :: "string \<Rightarrow> string set \<Rightarrow> string set" where
  "onKeyUp key held = held - {toLowerCase key}"

definition isKeyPressed :: "string \<Rightarrow> string set \<Rightarrow> bool" where
  "isKeyPressed key held = (toLowerCase key \<in> held)"

definition getLane :: "string \<Rightarrow> nat option" where
  "getLane key = map_of [(''a'', 0), (''s'', 1), (''d'', 2), (''f'', 3)] (toLowerCase key)"

section \<open>Double-precision arithmetic\<close>

text \<open>
  A JavaScript number is an IEEE 754 double, and \<open>a + b\<close> and \<open>a - b\<close> are the exact sum and
  difference rounded to the nearest double, ties to the even significand. \<open>binade x\<close> is
  the largest power of two not above \<open>|x|\<close>, kept between \<open>2^-1022\<close> and \<open>2^1023\<close>, found
  by doubling or halving from 1; \<open>ulp x\<close> is the spacing of the doubles there, which is
  \<open>2^-1074\<close> for the subnormal numbers. Overflow to infinity is not modelled: the
  rounding is that of the doubles as long as the result is below \<open>2^1024\<close>, and times
  are seconds.
\<close>

fun binadeUp :: "nat \<Rightarrow> real \<Rightarrow> real \<Rightarrow> real" where
  "binadeUp 0 p x = p"
| "binadeUp (Suc n) p x = (if 2 * p \<le> x then binadeUp n (2 * p) x else p)"

fun binadeDown :: "nat \<Rightarrow> real \<Rightarrow> real \<Rightarrow> real" where
  "binadeDown 0 p x = p"
| "binadeDown (Suc n) p x = (if x < p then binadeDown n (p / 2) x else p)"

definition binade :: "real \<Rightarrow> real" where
  "binade x = (if 1 \<le> \<bar>x\<bar> then binadeUp 1023 1 \<bar>x\<bar> else binadeDown 1022 1 \<bar>x\<bar>)"

definition ulp :: "real \<Rightarrow> real" where
  "ulp x = binade x / 2 ^ 52"

definition roundTiesToEven :: "real \<Rightarrow> int" where
  "roundTiesToEven y =
     (let f = \<lfloor>y\<rfloor>; r = y - of_int f in
      if r < 1 / 2 then f else if 1 / 2 < r then f + 1 else if even f then f else f + 1)"

definition roundDouble :: "real \<Rightarrow> real" where
  "roundDouble x = of_int (roundTiesToEven (x / ulp x)) * ulp x"

section \<open>The session loop (GameLoop, src/game/loop.ts)\<close>

text \<open>
  Calls on the renderer, the sound effects and the end screen return nothing to the loop;
  they are recorded, in order, in the field \<open>effects\<close>. \<open>console.log\<close> is left out.
\<close>

datatype effect =
    Clear
  | DrawLanes
  | DrawHitLine
  | DrawNotes real
  | DrawScore int nat
  | DrawFeedback string
  | SetShake nat
  | PlayMiss
  | PlayHit
  | PlayComboChime nat
  | RequestAnimationFrame
  | EndScreenShow GameStats int real string
  | EndScreenHide

text \<open>
  The loop object together with the objects it holds references to. \<open>animationFrameId\<close> and
  \<open>feedbackTimeout\<close> are \<open>True\<close> when the field holds a handle and \<open>False\<close> for \<open>null\<close>.
\<close>

record GameLoop =
  audioEngine :: WebAudioEngine
  heldKeys :: "string set"
  gameState :: GameState
  chart :: "Note list"
  isRunning :: bool
  animationFrameId :: bool
  feedbackTimeout :: bool
  currentFeedback :: string
  chartDuration :: real
  lastComboMilestone :: nat
  effects :: "effect list"

text \<open>
  The constructor, lines 17-28. On an empty chart \<open>this.chart[-1]\<close> is \<open>undefined\<close> and
  reading \<open>.hitTime\<close> of it throws a \<open>TypeError\<close>.
\<close>

definition GameLoop_new ::
  "WebAudioEngine \<Rightarrow> string set \<Rightarrow> GameState \<Rightarrow> Note list \<Rightarrow> error + GameLoop" where
  "GameLoop_new ae inp gs ch =
     (if ch = [] then Inl TypeError
      else Inr \<lparr>audioEngine = ae, heldKeys = inp, gameState = gs, chart = ch,
                isRunning = False, animationFrameId = False, feedbackTimeout = False,
                currentFeedback = [], chartDuration = hitTime (ch ! (length ch - 1)) + 2.0,
                lastComboMilestone = 0, effects = []\<rparr>)"

definition ratingText :: "Rating \<Rightarrow> string" where
  "ratingText r = (case r of PERFECT \<Rightarrow> ''PERFECT'' | GOOD \<Rightarrow> ''GOOD'' | MISS \<Rightarrow> ''MISS'')"

text \<open>\<open>showFeedback\<close>, lines 160-170.\<close>

definition showFeedback :: "string \<Rightarrow> GameLoop \<Rightarrow> GameLoop" where
  "showFeedback feedback w = w\<lparr>currentFeedback := feedback, feedbackTimeout := True\<rparr>"

text \<open>\<open>endGame\<close>, lines 172-191.\<close>

definition endGame :: "GameLoop \<Rightarrow> GameLoop" where
  "endGame w =
     (let w1 = w\<lparr>isRunning := False\<rparr>;
          sts = getStats (gameState w1);
          sc = getScore (gameState w1);
          accuracy = getAccuracy (gameState w1);
          grade = getGrade (gameState w1)
      in w1\<lparr>effects := effects w1 @ [EndScreenShow sts sc accuracy grade]\<rparr>)"

text \<open>The body of the \<open>forEach\<close> callback of \<open>checkMissedNotes\<close>, lines 72-87, at index \<open>i\<close>.\<close>

definition checkMissedNote :: "real \<Rightarrow> nat \<Rightarrow> GameLoop \<Rightarrow> GameLoop" where
  "checkMissedNote songTime i w =
     (let note = chart w ! i in
      if hit note then w
      else if hitTime note - songTime < - 0.120 then
        (let result = evaluateHit note songTime;
             w1 = w\<lparr>gameState := processHit result (gameState w)\<rparr>;
             w2 = w1\<lparr>chart := (chart w1)[i := note\<lparr>hit := True\<rparr>]\<rparr>;
             w3 = showFeedback (ratingText (rating result)) w2
         in if rating result = MISS
            then w3\<lparr>effects := effects w3 @ [SetShake 5, PlayMiss]\<rparr>
            else w3)
      else w)"

definition checkMissedNotes :: "real \<Rightarrow> GameLoop \<Rightarrow> GameLoop" where
  "checkMissedNotes songTime w = fold (checkMissedNote songTime) [0..<length (chart w)] w"

text \<open>
  \<open>findNearestNote\<close>, lines 128-140. The result is the position in the chart of the note
  object that the source returns by reference. The filter compares \<open>hitTime\<close> with the
  two bounds \<open>songTime - 0.120\<close> and \<open>songTime + 0.120\<close>, which the source computes in
  doubles; the judge measures the same window by a difference instead, and the two
  disagree where a bound is rounded, so the bounds are rounded here as the source rounds
  them: the literal \<open>0.120\<close> is the double nearest to it, and the sum and the difference
  are rounded again. The comparator of \<open>sort\<close> subtracts the two computed distances and
  its sign is their order; \<open>Array.prototype.sort\<close> is stable, as is \<open>sort_key\<close>.
\<close>

definition findNearestNote :: "nat \<Rightarrow> real \<Rightarrow> Note list \<Rightarrow> nat option" where
  "findNearestNote laneNo songTime ch =
     (let notesInLane =
            filter (\<lambda>i. lane (ch ! i) = laneNo \<and> \<not> hit (ch ! i)
                        \<and> hitTime (ch ! i) \<ge> roundDouble (songTime - roundDouble 0.120)
                        \<and> hitTime (ch ! i) \<le> roundDouble (songTime + roundDouble 0.120))
                   [0..<length ch]
      in case sort_key (\<lambda>i. \<bar>roundDouble (hitTime (ch ! i) - songTime)\<bar>) notesInLane of
           [] \<Rightarrow> None
         | i # _ \<Rightarrow> Some i)"

text \<open>\<open>checkComboMilestone\<close>, lines 142-158: the \<open>for\<close> loop with its \<open>break\<close>, then the
  reset test.\<close>

fun milestoneLoop :: "nat list \<Rightarrow> nat \<Rightarrow> GameLoop \<Rightarrow> GameLoop" where
  "milestoneLoop [] combo w = w"
| "milestoneLoop (milestone # ms) combo w =
     (if combo = milestone \<and> lastComboMilestone w < milestone
      then w\<lparr>effects := effects w @ [PlayComboChime combo], lastComboMilestone := milestone\<rparr>
      else milestoneLoop ms combo w)"

definition checkComboMilestone :: "nat \<Rightarrow> GameLoop \<Rightarrow> GameLoop" where
  "checkComboMilestone combo w =
     (let w1 = milestoneLoop [10, 20, 50, 100] combo w in
      if combo = 0 then w1\<lparr>lastComboMilestone := 0\<rparr> else w1)"

text \<open>\<open>handleKeyPress\<close>, lines 90-122; \<open>now\<close> is the device clock at the input event.\<close>

definition handleKeyPress :: "string \<Rightarrow> real \<Rightarrow> GameLoop \<Rightarrow> GameLoop" where
  "handleKeyPress key now w =
     (if \<not> isRunning w then w
      else if isKeyPressed key (heldKeys w) then w
      else
        (let w0 = w\<lparr>heldKeys := onKeyDown key (heldKeys w)\<rparr> in
         case getLane key of
           None \<Rightarrow> w0
         | Some laneNo \<Rightarrow>
             (let songTime = getSongTime (audioEngine w0) now in
              case findNearestNote laneNo songTime (chart w0) of
                None \<Rightarrow> w0
              | Some i \<Rightarrow>
                  (let note = chart w0 ! i in
                   if hit note then w0
                   else
                     (let result = evaluateHit note songTime;
                          w1 = w0\<lparr>gameState := processHit result (gameState w0)\<rparr>;
                          w2 = w1\<lparr>chart := (chart w1)[i := note\<lparr>hit := True\<rparr>]\<rparr>;
                          w3 = showFeedback (ratingText (rating result)) w2
                      in if rating result = MISS
                         then w3\<lparr>effects := effects w3 @ [SetShake 5, PlayMiss]\<rparr>
                         else
                           (let w4 = w3\<lparr>effects := effects w3 @ [PlayHit]\<rparr>;
                                currentCombo = getCombo (gameState w4)
                            in checkComboMilestone currentCombo w4))))))"

text \<open>\<open>handleKeyUp\<close>, lines 124-126.\<close>

definition handleKeyUp :: "string \<Rightarrow> GameLoop \<Rightarrow> GameLoop" where
  "handleKeyUp key w = w\<lparr>heldKeys := onKeyUp key (heldKeys w)\<rparr>"

text \<open>\<open>loop\<close>, lines 49-69: one animation-frame tick; \<open>now\<close> is the device clock at the tick.\<close>

definition loop :: "real \<Rightarrow> GameLoop \<Rightarrow> GameLoop" where
  "loop now w =
     (if \<not> isRunning w then w
      else
        (let songTime = getSongTime (audioEngine w) now in
         if songTime > chartDuration w then endGame w
         else
           (let w1 = w\<lparr>effects := effects w @
                        [Clear, DrawLanes, DrawHitLine, DrawNotes songTime,
                         DrawScore (getScore (gameState w)) (getCombo (gameState w)),
                         DrawFeedback (currentFeedback w)]\<rparr>;
                w2 = checkMissedNotes songTime w1
            in w2\<lparr>animationFrameId := True, effects := effects w2 @ [RequestAnimationFrame]\<rparr>)))"


text \<open>\<open>GameLoop.reset\<close>, lines 196-217, called between sessions.\<close>

definition GameLoop_reset :: "GameLoop \<Rightarrow> GameLoop" where
  "GameLoop_reset w =
     w\<lparr>gameState := GameState_reset, lastComboMilestone := 0, currentFeedback := [],
       feedbackTimeout := False, chart := map (\<lambda>note. note\<lparr>hit := False\<rparr>) (chart w),
       effects := effects w @ [EndScreenHide]\<rparr>"

text \<open>The callback that \<open>showFeedback\<close> schedules, lines 167-169.\<close>

definition feedbackExpired :: "GameLoop \<Rightarrow> GameLoop" where
  "feedbackExpired w = w\<lparr>currentFeedback := []\<rparr>"

text \<open>
  What can happen during a session: a frame tick, a key going down, a key going up, the
  feedback timer firing. All run on one thread, one after the other.
\<close>

datatype event = Tick real | KeyDown string real | KeyUp string | FeedbackTimeout

fun step :: "event \<Rightarrow> GameLoop \<Rightarrow> GameLoop" where
  "step (Tick now) w = loop now w"
| "step (KeyDown key now) w = handleKeyPress key now w"
| "step (KeyUp key) w = handleKeyUp key w"
| "step FeedbackTimeout w = feedbackExpired w"

definition run :: "event list \<Rightarrow> GameLoop \<Rightarrow> GameLoop" where
  "run es w = fold step es w"


section \<open>Notions used in the statements\<close>






text \<open>The combo chimes among the recorded effects.\<close>

definition chimes :: "GameLoop \<Rightarrow> effect list" where
  "chimes w = filter (\<lambda>e. case e of PlayComboChime _ \<Rightarrow> True | _ \<Rightarrow> False) (effects w)"

text \<open>Current combo, miss count, milestone tracker and chimes played so far.\<close>

definition comboView :: "GameLoop \<Rightarrow> nat \<times> nat \<times> nat \<times> effect list" where
  "comboView w =
     (getCombo (gameState w), missCount (stats (gameState w)), lastComboMilestone w, chimes w)"

section \<open>Concrete sessions\<close>

text \<open>An engine as \<open>start\<close> leaves a fresh one when the new context's clock reads 0.\<close>

definition started :: WebAudioEngine where
  "started =
     \<lparr>audioContext = Some (), songStartTime = 0, calibrationOffset = 0, isPlaying = True,
      isPaused = False, pauseStartTime = 0, totalPausedTime = 0\<rparr>"

text \<open>A running session on a chart of one note in lane 0 at 1 s.\<close>

definition session1 :: GameLoop where
  "session1 =
     \<lparr>audioEngine = started, heldKeys = {}, gameState = GameState_reset,
      chart = [\<lparr>lane = 0, hitTime = 1, hit = False\<rparr>],
      isRunning = True, animationFrameId = False, feedbackTimeout = False,
      currentFeedback = [], chartDuration = 3, lastComboMilestone = 0, effects = []\<rparr>"


definition quantum9261 :: real where
  "quantum9261 = roundDouble (9261 * 128 / 44100)"

text \<open>A running session on 21 notes in lane 0, one per second from 1 s to 21 s.\<close>

definition chart21 :: "Note list" where
  "chart21 = map (\<lambda>k. \<lparr>lane = 0, hitTime = real k, hit = False\<rparr>) [1..<22]"

definition session21 :: GameLoop where
  "session21 =
     \<lparr>audioEngine = started, heldKeys = {}, gameState = GameState_reset, chart = chart21,
      isRunning = True, animationFrameId = False, feedbackTimeout = False,
      currentFeedback = [], chartDuration = 23, lastComboMilestone = 0, effects = []\<rparr>"

text \<open>The script of the combo-accounting scenario, with the score deltas of the judge.\<close>

definition comboScript :: "HitResult list" where
  "comboScript =
     [\<lparr>rating = PERFECT, scoreDelta = 100, timeDiff = 0\<rparr>,
      \<lparr>rating = PERFECT, scoreDelta = 100, timeDiff = 0\<rparr>,
      \<lparr>rating = MISS, scoreDelta = 0, timeDiff = 1\<rparr>,
      \<lparr>rating = GOOD, scoreDelta = 50, timeDiff = 0.1\<rparr>,
      \<lparr>rating = PERFECT, scoreDelta = 100, timeDiff = 0\<rparr>]"

text \<open>Three judgments as the judge produces them: on time, 1 s late, 0.1 s late.\<close>

definition judged3 :: "HitResult list" where
  "judged3 =
     [evaluateHit \<lparr>lane = 0, hitTime = 1, hit = False\<rparr> 1,
      evaluateHit \<lparr>lane = 0, hitTime = 2, hit = False\<rparr> 3,
      evaluateHit \<lparr>lane = 0, hitTime = 4, hit = False\<rparr> 4.1]"

text \<open>Pressing and releasing the key \<open>a\<close> at each of the given seconds.\<close>

definition presses :: "nat list \<Rightarrow> event list" where
  "presses ks = concat (map (\<lambda>k. [KeyDown ''a'' (real k), KeyUp ''a'']) ks)"


section \<open>The accumulator\<close>


lemma processAll_Nil: "processAll [] g = g"
  by (simp add: processAll_def)

lemma processAll_Cons: "processAll (r # rs) g = processAll rs (processHit r g)"
  by (simp add: processAll_def)

lemma processAll_snoc: "processAll (rs @ [r]) g = processHit r (processAll rs g)"
  by (simp add: processAll_def)

lemma processHit_combo:
  "currentCombo (stats (processHit r g)) =
     (if rating r = MISS then 0 else currentCombo (stats g) + 1)"
  by (simp add: processHit_def Let_def)

lemma processHit_combo_le:
  "currentCombo (stats g) \<le> maxCombo (stats g) \<Longrightarrow>
   currentCombo (stats (processHit r g)) \<le> maxCombo (stats (processHit r g))"
  by (simp add: processHit_def Let_def)

lemma processHit_score:
  "score (processHit r g) = score g + (if rating r = MISS then 0 else scoreDelta r)"
  by (simp add: processHit_def Let_def)

lemma processAll_combo_le:
  "currentCombo (stats g) \<le> maxCombo (stats g) \<Longrightarrow>
   currentCombo (stats (processAll rs g)) \<le> maxCombo (stats (processAll rs g))"
  by (induction rs arbitrary: g) (simp_all add: processAll_Nil processAll_Cons processHit_combo_le)

lemma processAll_score:
  "score (processAll rs g) =
     score g + sum_list (map scoreDelta (filter (\<lambda>r. rating r \<noteq> MISS) rs))"
  by (induction rs arbitrary: g) (simp_all add: processAll_Nil processAll_Cons processHit_score)

lemma sum_applied_eq_sum_all:
  "\<forall>r\<in>set rs. rating r = MISS \<longrightarrow> scoreDelta r = 0 \<Longrightarrow>
   sum_list (map scoreDelta (filter (\<lambda>r. rating r \<noteq> MISS) rs)) = sum_list (map scoreDelta rs)"
  by (induction rs) auto

lemma evaluateHit_miss_zero:
  "rating (evaluateHit note t) = MISS \<longrightarrow> scoreDelta (evaluateHit note t) = 0"
  by (simp add: evaluateHit_def Let_def)

text \<open>
  Claim C7. Fold any sequence of judgments \<open>rs\<close> into the accumulator from the reset
  state. After every prefix of \<open>k\<close> judgments: \<open>currentCombo \<le> maxCombo\<close>; the score is
  the sum of the score deltas of the judgments that were not a Miss (the ones
  \<open>processHit\<close> adds), which is the sum of all score deltas when every Miss carries the
  delta 0, as every judgment of \<open>evaluateHit\<close> does (\<open>evaluateHit_miss_zero\<close>); and the
  next judgment sets \<open>currentCombo\<close> to 0 exactly when it is a Miss and otherwise adds 1.
\<close>

theorem accumulator_invariants:
  "\<forall>k\<le>length rs.
     (let g = processAll (take k rs) GameState_reset in
        currentCombo (stats g) \<le> maxCombo (stats g)
      \<and> score g = sum_list (map scoreDelta (filter (\<lambda>r. rating r \<noteq> MISS) (take k rs)))
      \<and> ((\<forall>r\<in>set (take k rs). rating r = MISS \<longrightarrow> scoreDelta r = 0) \<longrightarrow>
           score g = sum_list (map scoreDelta (take k rs)))
      \<and> (k < length rs \<longrightarrow>
           processAll (take (Suc k) rs) GameState_reset = processHit (rs ! k) g
         \<and> currentCombo (stats (processHit (rs ! k) g)) =
             (if rating (rs ! k) = MISS then 0 else currentCombo (stats g) + 1)
         \<and> ((currentCombo (stats (processHit (rs ! k) g)) = 0) = (rating (rs ! k) = MISS))))"
proof (intro allI impI)
  fix k assume "k \<le> length rs"
  define g where "g = processAll (take k rs) GameState_reset"
  have le: "currentCombo (stats g) \<le> maxCombo (stats g)"
    unfolding g_def by (rule processAll_combo_le) (simp add: GameState_reset_def)
  have sc: "score g = sum_list (map scoreDelta (filter (\<lambda>r. rating r \<noteq> MISS) (take k rs)))"
    unfolding g_def by (simp add: processAll_score GameState_reset_def)
  have sc2: "(\<forall>r\<in>set (take k rs). rating r = MISS \<longrightarrow> scoreDelta r = 0) \<longrightarrow>
           score g = sum_list (map scoreDelta (take k rs))"
    using sc sum_applied_eq_sum_all [of "take k rs"] by simp
  have st: "k < length rs \<longrightarrow>
           processAll (take (Suc k) rs) GameState_reset = processHit (rs ! k) g"
    unfolding g_def by (simp add: take_Suc_conv_app_nth processAll_snoc)
  have cb: "currentCombo (stats (processHit (rs ! k) g)) =
             (if rating (rs ! k) = MISS then 0 else currentCombo (stats g) + 1)"
    by (rule processHit_combo)
  have cz: "(currentCombo (stats (processHit (rs ! k) g)) = 0) = (rating (rs ! k) = MISS)"
    by (simp add: processHit_combo)
  show "let g = processAll (take k rs) GameState_reset in
        currentCombo (stats g) \<le> maxCombo (stats g)
      \<and> score g = sum_list (map scoreDelta (filter (\<lambda>r. rating r \<noteq> MISS) (take k rs)))
      \<and> ((\<forall>r\<in>set (take k rs). rating r = MISS \<longrightarrow> scoreDelta r = 0) \<longrightarrow>
           score g = sum_list (map scoreDelta (take k rs)))
      \<and> (k < length rs \<longrightarrow>
           processAll (take (Suc k) rs) GameState_reset = processHit (rs ! k) g
         \<and> currentCombo (stats (processHit (rs ! k) g)) =
             (if rating (rs ! k) = MISS then 0 else currentCombo (stats g) + 1)
         \<and> ((currentCombo (stats (processHit (rs ! k) g)) = 0) = (rating (rs ! k) = MISS)))"
    unfolding Let_def g_def [symmetric] using le sc sc2 st cb cz by blast
qed

theorem accumulator_invariants_witness:
  "(2::nat) \<le> length judged3 \<and> 2 < length judged3
   \<and> rating (judged3 ! 0) = PERFECT \<and> rating (judged3 ! 1) = MISS
   \<and> scoreDelta (judged3 ! 1) = 0 \<and> rating (judged3 ! 2) = GOOD
   \<and> currentCombo (stats (processAll (take 2 judged3) GameState_reset))
        \<le> maxCombo (stats (processAll (take 2 judged3) GameState_reset))
   \<and> score (processAll (take 2 judged3) GameState_reset)
        = sum_list (map scoreDelta (take 2 judged3))
   \<and> score (processAll (take 2 judged3) GameState_reset) = 100
   \<and> currentCombo (stats (processAll (take 2 judged3) GameState_reset)) = 0
   \<and> currentCombo (stats (processHit (judged3 ! 2)
        (processAll (take 2 judged3) GameState_reset))) = 1"
  using accumulator_invariants [of judged3]
  by (simp add: judged3_def evaluateHit_def processAll_def processHit_def GameState_reset_def
                Let_def)


text \<open>
  Claim C1, as amended. The script [Perfect, Perfect, Miss, Good, Perfect] with the
  judge's deltas 100, 100, 0, 50, 100, folded from the reset state, ends with
  \<open>currentCombo = 2\<close>, \<open>maxCombo = 2\<close>, \<open>score = 350\<close> and \<open>missCount = 1\<close>, whatever the
  time differences: the Good and the Perfect after the Miss bring the combo to 2 and the
  four scoring judgments add up to 350.
\<close>

theorem combo_script:
  "(let g = processAll
       [\<lparr>rating = PERFECT, scoreDelta = 100, timeDiff = d1\<rparr>,
        \<lparr>rating = PERFECT, scoreDelta = 100, timeDiff = d2\<rparr>,
        \<lparr>rating = MISS, scoreDelta = 0, timeDiff = d3\<rparr>,
        \<lparr>rating = GOOD, scoreDelta = 50, timeDiff = d4\<rparr>,
        \<lparr>rating = PERFECT, scoreDelta = 100, timeDiff = d5\<rparr>] GameState_reset
    in currentCombo (stats g) = 2 \<and> maxCombo (stats g) = 2 \<and> score g = 350
       \<and> missCount (stats g) = 1)"
  by (simp add: processAll_def processHit_def GameState_reset_def Let_def)

text \<open>The values the claim gives (combo 1, score 250) are not what the fold returns.\<close>

theorem combo_script_counterexample:
  "currentCombo (stats (processAll comboScript GameState_reset)) \<noteq> 1
   \<and> score (processAll comboScript GameState_reset) \<noteq> 250
   \<and> \<not> (currentCombo (stats (processAll comboScript GameState_reset)) = 1
        \<and> maxCombo (stats (processAll comboScript GameState_reset)) = 2
        \<and> score (processAll comboScript GameState_reset) = 250
        \<and> missCount (stats (processAll comboScript GameState_reset)) = 1)"
  by (simp add: comboScript_def processAll_def processHit_def GameState_reset_def Let_def)

section \<open>The audio clock\<close>


lemma reachable_context: "reachable e \<Longrightarrow> isPlaying e \<longrightarrow> audioContext e \<noteq> None"
  by (induction rule: reachable.induct)
     (auto simp: WebAudioEngine_new_def stop_def start_def onended_def setOffset_def pause_def
                 resume_def Let_def split: option.splits if_splits)

text \<open>
  Claim C5, as amended. In every state the engine can reach, \<open>getSongTime\<close> is 0 when the
  clock is not playing and \<open>max 0 (now - songStartTime - totalPausedTime -
  calibrationOffset)\<close> when it is. After \<open>setOffset x\<close> with \<open>x > 0\<close> the reading is never
  larger than it would be with offset 0, and it is smaller by exactly \<open>x\<close> when the clock
  is playing and at least \<open>x\<close> seconds of unpaused device time have passed since the start;
  before that the reading is clamped at 0.
\<close>

theorem getSongTime_offset:
  "reachable e \<Longrightarrow>
     (\<not> isPlaying e \<longrightarrow> getSongTime e now = 0)
   \<and> (isPlaying e \<longrightarrow>
        getSongTime e now =
          max 0 (now - songStartTime e - totalPausedTime e - calibrationOffset e))
   \<and> (0 < x \<longrightarrow>
        getSongTime (setOffset x e) now \<le> getSongTime (setOffset 0 e) now
      \<and> (isPlaying e \<and> x \<le> now - songStartTime e - totalPausedTime e \<longrightarrow>
           getSongTime (setOffset x e) now = getSongTime (setOffset 0 e) now - x))"
  using reachable_context [of e]
  by (auto simp: getSongTime_def setOffset_def Let_def)


lemma started_reachable: "reachable started"
proof -
  have "start (Some 0) WebAudioEngine_new = Inr started"
    by (simp add: start_def stop_def WebAudioEngine_new_def started_def)
  then show ?thesis using reach_start [OF reach_new] by blast
qed

theorem getSongTime_offset_witness:
  "reachable started \<and> isPlaying started \<and> (0::real) < 2 \<and> 2 \<le> 5 - songStartTime started - totalPausedTime started
   \<and> getSongTime started 5 = 5
   \<and> getSongTime (setOffset 2 started) 5 = 3
   \<and> getSongTime (setOffset 2 started) 5 = getSongTime (setOffset 0 started) 5 - 2
   \<and> \<not> isPlaying (stop started) \<and> reachable (stop started) \<and> getSongTime (stop started) 5 = 0"
  using getSongTime_offset [OF started_reachable, of 5 2]
        getSongTime_offset [OF reach_stop [OF started_reachable], of 5 2] started_reachable
        reach_stop [OF started_reachable]
  by (simp add: started_def getSongTime_def setOffset_def stop_def)

text \<open>
  At the instant of the start both readings are 0, so the reading with offset 2 is not
  smaller; one second later it is 0 against 1, smaller by 1 and not by 2.
\<close>

theorem getSongTime_offset_counterexample:
  "\<not> (getSongTime (setOffset 2 started) 0 < getSongTime (setOffset 0 started) 0)
   \<and> \<not> (getSongTime (setOffset 2 started) 1 = getSongTime (setOffset 0 started) 1 - 2)"
  by (simp add: started_def getSongTime_def setOffset_def)

text \<open>
  Claim C9. For a reachable engine that is playing and not paused, the song time read
  at device time \<open>now2\<close> right after \<open>resume\<close> equals the song time read at device time
  \<open>now1\<close> right before \<open>pause\<close>, for any two readings of the device clock, so for any
  length of the pause: the duration added to \<open>totalPausedTime\<close> is \<open>now2 - now1\<close>, measured
  on the clock that \<open>getSongTime\<close> reads. \<open>pause\<close> changes nothing when the engine is not
  playing or already paused, and \<open>resume\<close> changes nothing when it is not paused.
\<close>

theorem pause_exclusion:
  "reachable e \<Longrightarrow>
     (isPlaying e \<and> \<not> isPaused e \<longrightarrow>
        getSongTime (resume now2 (pause now1 e)) now2 = getSongTime e now1)
   \<and> (\<not> isPlaying e \<or> isPaused e \<longrightarrow> pause now1 e = e)
   \<and> (\<not> isPaused e \<longrightarrow> resume now2 e = e)"
  using reachable_context [of e]
  by (auto simp: getSongTime_def pause_def resume_def Let_def)

theorem pause_exclusion_witness:
  "reachable started \<and> isPlaying started \<and> \<not> isPaused started
   \<and> getSongTime started 3 = 3
   \<and> getSongTime (resume 60 (pause 3 started)) 60 = 3
   \<and> resume 60 started = started
   \<and> isPaused (pause 3 started) \<and> pause 4 (pause 3 started) = pause 3 started"
  using pause_exclusion [OF started_reachable, of 60 3]
        pause_exclusion [OF reach_pause [OF started_reachable, of 3], of 60 4]
        started_reachable
  by (simp add: started_def getSongTime_def pause_def resume_def)


section \<open>Key presses\<close>









text \<open>
  Evaluating the rounding on numerals: the search for the binade runs on numeral fuel, and
  \<open>roundDouble\<close> is unfolded on numerals only, so that it stays folded under a binder.
\<close>

lemma binadeUp_numeral:
  "binadeUp (numeral k) p x = (if 2 * p \<le> x then binadeUp (pred_numeral k) (2 * p) x else p)"
  by (simp add: numeral_eq_Suc)

lemma binadeDown_numeral:
  "binadeDown (numeral k) p x = (if x < p then binadeDown (pred_numeral k) (p / 2) x else p)"
  by (simp add: numeral_eq_Suc)

lemma roundDouble_numerals:
  "roundDouble (numeral a) =
     of_int (roundTiesToEven (numeral a / ulp (numeral a))) * ulp (numeral a)"
  "roundDouble (numeral a / numeral b) =
     of_int (roundTiesToEven (numeral a / numeral b / ulp (numeral a / numeral b)))
       * ulp (numeral a / numeral b)"
  "roundDouble (- (numeral a / numeral b)) =
     of_int (roundTiesToEven (- (numeral a / numeral b) / ulp (- (numeral a / numeral b))))
       * ulp (- (numeral a / numeral b))"
  "roundDouble (- numeral a) =
     of_int (roundTiesToEven (- numeral a / ulp (- numeral a))) * ulp (- numeral a)"
  "roundDouble (1 / numeral b) =
     of_int (roundTiesToEven (1 / numeral b / ulp (1 / numeral b))) * ulp (1 / numeral b)"
  "roundDouble 1 = of_int (roundTiesToEven (1 / ulp 1)) * ulp 1"
  "roundDouble 0 = 0"
  by (simp_all add: roundDouble_def roundTiesToEven_def)

lemma list_update_numeral:
  "(x # xs)[numeral k := v] = x # xs[pred_numeral k := v]"
  by (simp add: numeral_eq_Suc)

lemmas rounding_eval =
  roundDouble_numerals ulp_def binade_def roundTiesToEven_def binadeUp_numeral
  binadeDown_numeral Let_def

lemmas session_eval =
  run_def handleKeyPress_def handleKeyUp_def loop_def endGame_def checkMissedNotes_def
  checkMissedNote_def findNearestNote_def checkComboMilestone_def showFeedback_def
  ratingText_def evaluateHit_def processHit_def getCombo_def getScore_def getStats_def
  getSongTime_def isKeyPressed_def onKeyDown_def onKeyUp_def getLane_def toLowerCase_def
  comboView_def chimes_def GameState_reset_def started_def list_update_numeral

text \<open>The model of the rounding on values that are known of the doubles.\<close>

lemma roundDouble_known_values:
  "roundDouble 0.1 = 3602879701896397 / 2 ^ 55"
  "roundDouble 0.2 = 3602879701896397 / 2 ^ 54"
  "roundDouble (roundDouble 0.1 + roundDouble 0.2) = 1351079888211149 / 2 ^ 52"
  "roundDouble (2 ^ 53 + 1) = 2 ^ 53"
  "roundDouble (2 ^ 53 + 3) = 2 ^ 53 + 4"
  "roundDouble 27 = 27"
  "roundDouble 0.120 = 1080863910568919 / 2 ^ 53"
  "quantum9261 = 7566047373982433 / 2 ^ 48"
  "roundDouble (quantum9261 + roundDouble 0.120) = 27"
  by (simp_all add: quantum9261_def rounding_eval)





section \<open>Constructing the loop\<close>

text \<open>
  Claim C10. The constructor computes \<open>chartDuration\<close> from the last element of the
  chart. On the empty chart that element does not exist and the constructor fails with a
  \<open>TypeError\<close>; it fails in no other case, and on a chart with notes it returns a loop,
  not yet running, whose duration is the last note's \<open>hitTime\<close> plus 2.0.
\<close>

theorem constructor_needs_notes:
  "GameLoop_new ae inp gs [] = Inl TypeError
   \<and> (case GameLoop_new ae inp gs ch of
         Inl e \<Rightarrow> ch = [] \<and> e = TypeError
       | Inr w \<Rightarrow> ch \<noteq> [] \<and> chartDuration w = hitTime (last ch) + 2.0 \<and> chart w = ch
                 \<and> \<not> isRunning w)"
  by (simp add: GameLoop_new_def last_conv_nth)

lemma session1_is_constructed:
  "GameLoop_new started {} GameState_reset (chart session1) = Inr (session1\<lparr>isRunning := False\<rparr>)"
  by (simp add: GameLoop_new_def session1_def)

lemma session21_constructed:
  "GameLoop_new started {} GameState_reset chart21 = Inr (session21\<lparr>isRunning := False\<rparr>)"
  by (simp add: GameLoop_new_def session21_def chart21_def)

section \<open>The end of a session\<close>

text \<open>
  Claim C2, as amended. On a tick of a running loop whose sampled song time exceeds
  \<open>chartDuration\<close>, the loop stops running, hands a snapshot of the statistics, the score,
  the accuracy and the grade to the end screen, and does nothing else: it draws nothing,
  requests no further frame, leaves chart and accumulator as they are, and leaves the
  audio engine untouched. Later ticks change nothing.
\<close>

theorem end_of_session:
  "isRunning w \<Longrightarrow> chartDuration w < getSongTime (audioEngine w) now \<Longrightarrow>
     loop now w =
       w\<lparr>isRunning := False,
         effects := effects w @
           [EndScreenShow (stats (gameState w)) (score (gameState w))
              (getAccuracy (gameState w)) (getGrade (gameState w))]\<rparr>
   \<and> \<not> isRunning (loop now w)
   \<and> audioEngine (loop now w) = audioEngine w
   \<and> chart (loop now w) = chart w
   \<and> gameState (loop now w) = gameState w
   \<and> loop later (loop now w) = loop now w"
  by (simp add: loop_def endGame_def getStats_def getScore_def Let_def)

theorem end_of_session_witness:
  "isRunning session1 \<and> chartDuration session1 < getSongTime (audioEngine session1) 3.5
   \<and> \<not> isRunning (loop 3.5 session1)
   \<and> effects (loop 3.5 session1) =
       [EndScreenShow \<lparr>perfectCount = 0, goodCount = 0, missCount = 0, maxCombo = 0,
                       currentCombo = 0\<rparr> 0 0 ''F'']
   \<and> audioEngine (loop 3.5 session1) = started"
  using end_of_session [of session1 "3.5"]
  by (simp add: session1_def started_def getSongTime_def getAccuracy_def getGrade_def
                GameState_reset_def Let_def)

text \<open>
  After the ending tick the audio engine is not in the state \<open>stop\<close> would leave it in:
  it is still playing and its song time goes on.
\<close>

theorem end_of_session_counterexample:
  "isRunning session1 \<and> chartDuration session1 < getSongTime (audioEngine session1) 3.5
   \<and> \<not> isRunning (loop 3.5 session1)
   \<and> audioEngine (loop 3.5 session1) \<noteq> stop (audioEngine session1)
   \<and> isPlaying (audioEngine (loop 3.5 session1))
   \<and> getSongTime (audioEngine (loop 3.5 session1)) 4 = 4"
  by (simp add: loop_def endGame_def session1_def started_def getSongTime_def stop_def Let_def)

section \<open>Judging each note once\<close>





























section \<open>Combo milestones\<close>

lemma milestoneLoop_mono:
  "lastComboMilestone w \<le> lastComboMilestone (milestoneLoop ms combo w)"
  by (induction ms) simp_all

lemma checkComboMilestone_mono:
  "0 < combo \<Longrightarrow> lastComboMilestone w \<le> lastComboMilestone (checkComboMilestone combo w)"
  by (simp add: checkComboMilestone_def Let_def milestoneLoop_mono)

lemma checkMissedNote_milestone:
  "lastComboMilestone (checkMissedNote songTime i w) = lastComboMilestone w"
  by (simp add: checkMissedNote_def showFeedback_def Let_def)

lemma fold_checkMissedNote_milestone:
  "lastComboMilestone (fold (checkMissedNote songTime) is w) = lastComboMilestone w"
  by (induction "is" arbitrary: w) (simp_all add: checkMissedNote_milestone)

lemma loop_milestone: "lastComboMilestone (loop now w) = lastComboMilestone w"
  by (simp add: loop_def endGame_def checkMissedNotes_def fold_checkMissedNote_milestone Let_def)

lemma getCombo_processHit_pos:
  "rating r \<noteq> MISS \<Longrightarrow> 0 < getCombo (processHit r g)"
  by (simp add: getCombo_def processHit_def Let_def)

lemma handleKeyPress_milestone:
  "lastComboMilestone w \<le> lastComboMilestone (handleKeyPress key now w)"
proof -
  have k: "\<And>(r::HitResult) (v::GameLoop). rating r \<noteq> MISS \<Longrightarrow> lastComboMilestone v = lastComboMilestone w \<Longrightarrow>
          lastComboMilestone w
            \<le> lastComboMilestone
                 (checkComboMilestone (currentCombo (stats (processHit r (gameState w)))) v)"
  proof -
    fix r :: HitResult and v :: GameLoop
    assume a: "rating r \<noteq> MISS" and b: "lastComboMilestone v = lastComboMilestone w"
    have "0 < currentCombo (stats (processHit r (gameState w)))"
      using getCombo_processHit_pos [OF a] by (simp add: getCombo_def)
    then have "lastComboMilestone v
            \<le> lastComboMilestone
                 (checkComboMilestone (currentCombo (stats (processHit r (gameState w)))) v)"
      by (rule checkComboMilestone_mono)
    then show "lastComboMilestone w
            \<le> lastComboMilestone
                 (checkComboMilestone (currentCombo (stats (processHit r (gameState w)))) v)"
      using b by simp
  qed
  show ?thesis
    by (auto simp: handleKeyPress_def showFeedback_def getCombo_def Let_def
             split: option.splits intro!: k)
qed

lemma step_milestone: "lastComboMilestone w \<le> lastComboMilestone (step ev w)"
  by (cases ev)
     (simp_all add: loop_milestone handleKeyPress_milestone handleKeyUp_def feedbackExpired_def)

lemma milestone_tracker_never_lowered:
  "lastComboMilestone w \<le> lastComboMilestone (run es w)"
proof (induction es arbitrary: w)
  case Nil
  show ?case by (simp add: run_def)
next
  case (Cons ev es)
  have "lastComboMilestone w \<le> lastComboMilestone (step ev w)" by (rule step_milestone)
  also have "\<dots> \<le> lastComboMilestone (run es (step ev w))" by (rule Cons.IH)
  finally show ?case by (simp add: run_def)
qed

lemma chart21_list:
  "chart21 =
     [\<lparr>lane = 0, hitTime = 1, hit = False\<rparr>,
      \<lparr>lane = 0, hitTime = 2, hit = False\<rparr>,
      \<lparr>lane = 0, hitTime = 3, hit = False\<rparr>,
      \<lparr>lane = 0, hitTime = 4, hit = False\<rparr>,
      \<lparr>lane = 0, hitTime = 5, hit = False\<rparr>,
      \<lparr>lane = 0, hitTime = 6, hit = False\<rparr>,
      \<lparr>lane = 0, hitTime = 7, hit = False\<rparr>,
      \<lparr>lane = 0, hitTime = 8, hit = False\<rparr>,
      \<lparr>lane = 0, hitTime = 9, hit = False\<rparr>,
      \<lparr>lane = 0, hitTime = 10, hit = False\<rparr>,
      \<lparr>lane = 0, hitTime = 11, hit = False\<rparr>,
      \<lparr>lane = 0, hitTime = 12, hit = False\<rparr>,
      \<lparr>lane = 0, hitTime = 13, hit = False\<rparr>,
      \<lparr>lane = 0, hitTime = 14, hit = False\<rparr>,
      \<lparr>lane = 0, hitTime = 15, hit = False\<rparr>,
      \<lparr>lane = 0, hitTime = 16, hit = False\<rparr>,
      \<lparr>lane = 0, hitTime = 17, hit = False\<rparr>,
      \<lparr>lane = 0, hitTime = 18, hit = False\<rparr>,
      \<lparr>lane = 0, hitTime = 19, hit = False\<rparr>,
      \<lparr>lane = 0, hitTime = 20, hit = False\<rparr>,
      \<lparr>lane = 0, hitTime = 21, hit = False\<rparr>]"
  by code_simp

lemma presses_first:
  "presses [1..<11] =
     [KeyDown ''a'' 1, KeyUp ''a'',
      KeyDown ''a'' 2, KeyUp ''a'',
      KeyDown ''a'' 3, KeyUp ''a'',
      KeyDown ''a'' 4, KeyUp ''a'',
      KeyDown ''a'' 5, KeyUp ''a'',
      KeyDown ''a'' 6, KeyUp ''a'',
      KeyDown ''a'' 7, KeyUp ''a'',
      KeyDown ''a'' 8, KeyUp ''a'',
      KeyDown ''a'' 9, KeyUp ''a'',
      KeyDown ''a'' 10, KeyUp ''a'']"
  by code_simp

lemma presses_second:
  "presses [12..<22] =
     [KeyDown ''a'' 12, KeyUp ''a'',
      KeyDown ''a'' 13, KeyUp ''a'',
      KeyDown ''a'' 14, KeyUp ''a'',
      KeyDown ''a'' 15, KeyUp ''a'',
      KeyDown ''a'' 16, KeyUp ''a'',
      KeyDown ''a'' 17, KeyUp ''a'',
      KeyDown ''a'' 18, KeyUp ''a'',
      KeyDown ''a'' 19, KeyUp ''a'',
      KeyDown ''a'' 20, KeyUp ''a'',
      KeyDown ''a'' 21, KeyUp ''a'']"
  by code_simp

text \<open>
  Claim C3, evaluated on a session of 21 notes. Ten hits bring the combo to 10 and the
  chime plays once. The eleventh note is missed: the combo is 0, the tracker still holds
  10. Ten more hits bring the combo to 10 again, and no second chime has played.
\<close>

theorem milestone_not_rearmed:
  "comboView (run (presses [1..<11]) session21) = (10, 0, 10, [PlayComboChime 10])
   \<and> comboView (run (presses [1..<11] @ [Tick 11.5]) session21)
        = (0, 1, 10, [PlayComboChime 10])
   \<and> comboView (run (presses [1..<11] @ [Tick 11.5] @ presses [12..<22]) session21)
        = (10, 1, 10, [PlayComboChime 10])"
  unfolding presses_first presses_second session21_def chart21_list append.simps
  by (simp_all add: session_eval rounding_eval)

end
